theory Spec2Isabelle
  imports Main "HOL-Library.Word" "HOL-Library.Signed_Division"
begin

unbundle bit_operations_syntax

section \<open>Machine integers, panics and the flat memory of the LCD driver\<close>

type_synonym u8 = "8 word"
type_synonym u16 = "16 word"

text \<open>A Go \<^verbatim>\<open>panic\<close> is a value: every function that can reach one returns
  \<open>panic + 'a\<close>, with \<open>Inl\<close> for the panic. \<open>BadBit\<close> and \<open>BadPixel\<close> are the two
  panics whose message is formatted from a byte, which they carry.\<close>

datatype panic = Panic string | BadBit u8 | BadPixel u8

text \<open>A counted \<^verbatim>\<open>for\<close> loop whose body can panic: the body runs for each index in
  order, on the state the previous iteration left, and the first panic ends the loop.\<close>

primrec forEach :: "'i list \<Rightarrow> ('i \<Rightarrow> 's \<Rightarrow> panic + 's) \<Rightarrow> 's \<Rightarrow> panic + 's" where
  "forEach [] body s = Inr s"
| "forEach (i # rest) body s =
     (case body i s of Inl e \<Rightarrow> Inl e | Inr s' \<Rightarrow> forEach rest body s')"

text \<open>\<^verbatim>\<open>mem.Memory\<close> as \<^verbatim>\<open>lcd/lcd.go\<close> uses it: \<^verbatim>\<open>Read(addr)\<close> hands out a
  pointer to the byte at a 16-bit address, which the driver reads and assigns through. The
  model is the byte at every address.\<close>

type_synonym Memory = "u16 \<Rightarrow> u8"

text \<open>Modelled from the spec: the constants \<^verbatim>\<open>mem.IF\<close>, \<^verbatim>\<open>mem.STAT\<close> and \<^verbatim>\<open>mem.LY\<close>
  are declared in the \<^verbatim>\<open>mem\<close> package, which is not among the sources. The spec places IF
  at 0xFF0F and the LCD registers LCDC, STAT, SCY, SCX, LY, LYC at 0xFF40 onwards.\<close>

definition mem_IF :: u16 where "mem_IF = 0xFF0F"
definition mem_LCDC :: u16 where "mem_LCDC = 0xFF40"
definition mem_STAT :: u16 where "mem_STAT = 0xFF41"
definition mem_LY :: u16 where "mem_LY = 0xFF44"

section \<open>lcd/lcd.go: the mode driver\<close>

text \<open>\<^verbatim>\<open>updateLcdLine\<close> has an empty body and returns nothing.\<close>

definition updateLcdLine :: "u8 \<Rightarrow> unit" where
  "updateLcdLine ly = ()"

text \<open>\<^verbatim>\<open>Tick\<close> in its three parts. The first \<^verbatim>\<open>switch\<close>: the mode, and the memory
  after the branch's side effect. Go's \<^verbatim>\<open>/\<close> and \<^verbatim>\<open>%\<close> on \<^verbatim>\<open>int\<close> truncate towards zero (\<open>sdiv\<close>,
  \<open>smod\<close>); \<^verbatim>\<open>uint8(_)\<close> keeps the low eight bits.\<close>

definition Tick_mode :: "Memory \<Rightarrow> u8 \<Rightarrow> int \<Rightarrow> panic + (u8 \<times> Memory)" where
  "Tick_mode memory ly lyRemainder =
     (if ly = 144 then Inr (1, memory(mem_IF := memory mem_IF OR 0x01))
      else if ly > 144 then Inr (1, memory)
      else if lyRemainder < 20 then Inr (2, memory)
      else if lyRemainder < 63 then Inr (3, memory)
      else if lyRemainder < 114 then (let u = updateLcdLine ly in Inr (0, memory))
      else Inl (Panic ''LCD driver error setting mode''))"

text \<open>The coincidence test and the second \<^verbatim>\<open>switch\<close>, on the \<^verbatim>\<open>stat\<close> byte.\<close>

definition Tick_coincidence :: "Memory \<Rightarrow> u8 \<Rightarrow> u8 \<Rightarrow> u8" where
  "Tick_coincidence memory ly stat =
     (if ly = memory 0xff45 then stat OR 0x44 else stat AND NOT 0x44)"

definition Tick_interrupts :: "u8 \<Rightarrow> int \<Rightarrow> u8 \<Rightarrow> u8" where
  "Tick_interrupts ly lyRemainder stat =
     (if ly = 144 then stat OR 0x10
      else if lyRemainder = 0 then stat OR 0x20
      else if lyRemainder = 63 then stat OR 0x08
      else stat)"

definition Tick :: "Memory \<Rightarrow> int \<Rightarrow> panic + Memory" where
  "Tick memory cycle =
     (let ly = (word_of_int (cycle sdiv 114) :: u8);
          lyRemainder = cycle smod 114
      in case Tick_mode memory ly lyRemainder of
           Inl e \<Rightarrow> Inl e
         | Inr (stat, memory) \<Rightarrow>
             (let stat = Tick_coincidence memory ly stat;
                  stat = Tick_interrupts ly lyRemainder stat
              in Inr (memory(mem_STAT := stat, mem_LY := ly))))"

text \<open>The mode as the spec words it, from the line \<open>ly\<close> and the dot \<open>lx\<close> within the line
  (a machine cycle is four dots): the comparison value for \<open>Tick\<close>.\<close>

definition spec_mode :: "u8 \<Rightarrow> int \<Rightarrow> u8" where
  "spec_mode ly lx =
     (if ly < 144 \<and> lx < 80 then 2
      else if ly < 144 \<and> lx < 80 + 172 then 3
      else if ly < 144 then 0
      else 1)"

text \<open>Reading one byte of the memory a fallible call leaves (\<open>None\<close> after a panic).\<close>

definition readAfter :: "panic + Memory \<Rightarrow> u16 \<Rightarrow> u8 option" where
  "readAfter r addr = (case r of Inl e \<Rightarrow> None | Inr m \<Rightarrow> Some (m addr))"

text \<open>Concrete memories for the evaluations below: all bytes zero; and all zero but for
  STAT, where the program has written the LYC-coincidence enable bit 6.\<close>

definition zero_memory :: Memory where
  "zero_memory = (\<lambda>addr. 0)"

definition stat6_memory :: Memory where
  "stat6_memory = zero_memory(mem_STAT := 0x40)"

text \<open>What servicing the VBlank interrupt does to IF (spec, CPU dispatch: the chosen IF
  bit is cleared): used to show the driver raising the bit again.\<close>

definition ackVBlank :: "Memory \<Rightarrow> Memory" where
  "ackVBlank memory = memory(mem_IF := memory mem_IF AND NOT 0x01)"

section \<open>lcd/lcd.go: the tile renderer\<close>

text \<open>The mask constants: \<^verbatim>\<open>bit7 = 1 << iota\<close> opens the \<^verbatim>\<open>const\<close> block, so \<^verbatim>\<open>bit7\<close> is
  1 and \<^verbatim>\<open>bit0\<close> is 128: \<^verbatim>\<open>bitN\<close> masks the N-th bit counted from the most significant.\<close>

definition bit7 :: u8 where "bit7 = 1"
definition bit6 :: u8 where "bit6 = 2"
definition bit5 :: u8 where "bit5 = 4"
definition bit4 :: u8 where "bit4 = 8"
definition bit3 :: u8 where "bit3 = 16"
definition bit2 :: u8 where "bit2 = 32"
definition bit1 :: u8 where "bit1 = 64"
definition bit0 :: u8 where "bit0 = 128"

text \<open>Modelled from the spec: \<^verbatim>\<open>highBgTileMapDisplaySelect\<close> and \<^verbatim>\<open>lowTileDataSelect\<close> are
  defined in a file of the \<^verbatim>\<open>lcd\<close> package that is not among the sources. The spec selects
  the tile map by LCDC bit 3 and the unsigned tile data area by LCDC bit 4.\<close>

definition highBgTileMapDisplaySelect :: "Memory \<Rightarrow> bool" where
  "highBgTileMapDisplaySelect mem = bit (mem mem_LCDC) 3"

definition lowTileDataSelect :: "Memory \<Rightarrow> bool" where
  "lowTileDataSelect mem = bit (mem mem_LCDC) 4"

definition lowTileAbsoluteAddress :: "u8 \<Rightarrow> u16" where
  "lowTileAbsoluteAddress tileNumber = 0x8000 + ucast tileNumber * 16"

text \<open>The argument is an \<^verbatim>\<open>int8\<close>: the byte read as two's complement (\<open>sint\<close>).\<close>

definition highTileAbsoluteAddress :: "u8 \<Rightarrow> u16" where
  "highTileAbsoluteAddress tileNumber = word_of_int (0x9000 + sint tileNumber * 16)"

text \<open>\<^verbatim>\<open>>>\<close> is \<open>drop_bit\<close> and \<^verbatim>\<open><<\<close> is \<open>push_bit\<close>, both on bytes; they bind tighter
  than \<^verbatim>\<open>|\<close>.\<close>

definition pixel :: "Memory \<Rightarrow> u16 \<Rightarrow> u8 \<Rightarrow> panic + u8" where
  "pixel mem memoryAddr bt =
     (let a = mem memoryAddr;
          b = mem (memoryAddr + 1)
      in if bt = 0 then Inr (drop_bit 7 (a AND bit0) OR drop_bit 6 (b AND bit0))
         else if bt = 1 then Inr (drop_bit 6 (a AND bit1) OR drop_bit 5 (b AND bit1))
         else if bt = 2 then Inr (drop_bit 5 (a AND bit2) OR drop_bit 4 (b AND bit2))
         else if bt = 3 then Inr (drop_bit 4 (a AND bit3) OR drop_bit 3 (b AND bit3))
         else if bt = 4 then Inr (drop_bit 3 (a AND bit4) OR drop_bit 2 (b AND bit4))
         else if bt = 5 then Inr (drop_bit 2 (a AND bit5) OR drop_bit 1 (b AND bit5))
         else if bt = 6 then Inr (drop_bit 1 (a AND bit6) OR (b AND bit6))
         else if bt = 7 then Inr ((a AND bit7) OR push_bit 1 (b AND bit7))
         else Inl (BadBit bt))"

definition tileDataAddr :: "Memory \<Rightarrow> u8 \<Rightarrow> u8 \<Rightarrow> u16" where
  "tileDataAddr mem tileX tileY =
     (let tileIndex = (ucast tileY :: u16) * 32 + ucast tileX;
          tileNumberAddr = (if highBgTileMapDisplaySelect mem then 0x9c00 + tileIndex
                            else 0x9800 + tileIndex);
          tileNumber = mem tileNumberAddr
      in if lowTileDataSelect mem then lowTileAbsoluteAddress tileNumber
         else highTileAbsoluteAddress tileNumber)"

text \<open>The body of the inner loop of \<^verbatim>\<open>drawTiles\<close>, for the counters \<^verbatim>\<open>lcdY\<close> and \<^verbatim>\<open>lcdX\<close>,
  in two parts: the byte it computes (the scroll registers are the constant 0; the
  additions on bytes wrap), and the assignment to \<^verbatim>\<open>lcd.data[index]\<close>, an array of 23040
  bytes kept as a list. The index is below 23040 for the counters the loops produce.\<close>

definition drawTilesPixel :: "Memory \<Rightarrow> u8 \<Rightarrow> u8 \<Rightarrow> panic + u8" where
  "drawTilesPixel mem lcdY lcdX =
     (let scrX = (0 :: u8);
          scrY = (0 :: u8);
          vramX = lcdX + scrX;
          vramY = lcdY + scrY;
          tileX = vramX div 8;
          tileY = vramY div 8;
          tileAddr = tileDataAddr mem tileX tileY;
          tileOffsetX = vramX mod 8;
          tileOffsetY = vramY mod 8;
          memoryAddr = tileAddr + ucast tileOffsetY * 2
      in pixel mem memoryAddr tileOffsetX)"

definition drawTilesBody :: "Memory \<Rightarrow> u8 \<Rightarrow> u8 \<Rightarrow> u8 list \<Rightarrow> panic + u8 list" where
  "drawTilesBody mem lcdY lcdX dat =
     (let index = (ucast lcdY :: u16) * 160 + ucast lcdX
      in case drawTilesPixel mem lcdY lcdX of
           Inl e \<Rightarrow> Inl e
         | Inr p \<Rightarrow> Inr (dat[unat index := p]))"

text \<open>The two loops: \<^verbatim>\<open>lcdY\<close> from 0 to 143 and, within, \<^verbatim>\<open>lcdX\<close> from 0 to 159, both
  \<^verbatim>\<open>uint8\<close> counters.\<close>

definition drawTiles :: "Memory \<Rightarrow> u8 list \<Rightarrow> panic + u8 list" where
  "drawTiles mem dat =
     forEach [0..<144] (\<lambda>lcdY. forEach [0..<160] (\<lambda>lcdX. drawTilesBody mem (of_nat lcdY) (of_nat lcdX))) dat"

text \<open>\<^verbatim>\<open>FrameData\<close> draws the tiles and returns the array.\<close>

definition FrameData :: "Memory \<Rightarrow> u8 list \<Rightarrow> panic + u8 list" where
  "FrameData mem dat = drawTiles mem dat"

subsection \<open>The background pixel as the spec words it\<close>

text \<open>The colour index 0-3 of the background at column \<open>x\<close> of line \<open>ly\<close>: scrolled by SCX
  (0xFF43) and SCY (0xFF42), tile map at 0x9C00 or 0x9800 by LCDC bit 3, tile data at
  0x8000 + idx*16 (unsigned) or 0x9000 + idx*16 (signed) by LCDC bit 4, the two bytes of row
  \<open>by mod 8\<close>, bit \<open>7 - bx mod 8\<close> of each, combined as \<open>(b1 << 1) | b0\<close>: the bit of
  the second byte counts 2 and the bit of the first byte counts 1.\<close>

definition spec_bg_index :: "Memory \<Rightarrow> u8 \<Rightarrow> u8 \<Rightarrow> u8" where
  "spec_bg_index mem x ly =
     (let bx = x + mem 0xFF43;
          by = ly + mem 0xFF42;
          base = (if bit (mem mem_LCDC) 3 then 0x9C00 else 0x9800 :: u16);
          idx = mem (base + ucast (by div 8) * 32 + ucast (bx div 8));
          tile = (if bit (mem mem_LCDC) 4 then 0x8000 + ucast idx * 16
                  else word_of_int (0x9000 + sint idx * 16) :: u16);
          row = tile + ucast (by mod 8) * 2;
          b0 = mem row;
          b1 = mem (row + 1);
          col = unat (bx mod 8)
      in (if bit b1 (7 - col) then 2 else 0) OR (if bit b0 (7 - col) then 1 else 0))"

text \<open>The shade: the colour index mapped through BGP (0xFF47), two bits per entry.\<close>

definition spec_bg_shade :: "Memory \<Rightarrow> u8 \<Rightarrow> u8 \<Rightarrow> u8" where
  "spec_bg_shade mem x ly =
     drop_bit (2 * unat (spec_bg_index mem x ly)) (mem 0xFF47) AND 3"

text \<open>One byte of the array a fallible call leaves (\<open>None\<close> after a panic).\<close>

definition byteAfter :: "panic + u8 list \<Rightarrow> nat \<Rightarrow> u8 option" where
  "byteAfter r i = (case r of Inl e \<Rightarrow> None | Inr d \<Rightarrow> Some (d ! i))"

text \<open>A memory for the evaluation: LCDC 0x91 (display and background on, tile data at
  0x8000), no scroll, an all-zero tile map, tile 0 with its first row all colour 3, and a
  BGP register 0x00 that maps every colour index to shade 0.\<close>

definition bgp_memory :: Memory where
  "bgp_memory = (\<lambda>addr. 0)(mem_LCDC := 0x91, 0x8000 := 0xFF, 0x8001 := 0xFF)"

section \<open>The GL renderer\<close>

text \<open>\<^verbatim>\<open>color.RGBA\<close>, written positionally as the source does, and \<^verbatim>\<open>image.RGBA\<close> of the Go
  standard library for a rectangle with its corner at the origin: the size and the colour
  at every point. \<^verbatim>\<open>SetRGBA\<close> ignores a point outside the rectangle.\<close>

datatype RGBA = RGBA u8 u8 u8 u8

record Image =
  width :: int
  height :: int
  colourAt :: "int \<times> int \<Rightarrow> RGBA"

definition NewRGBA :: "int \<Rightarrow> int \<Rightarrow> Image" where
  "NewRGBA w h = \<lparr>width = w, height = h, colourAt = (\<lambda>p. RGBA 0 0 0 0)\<rparr>"

definition SetRGBA :: "Image \<Rightarrow> int \<Rightarrow> int \<Rightarrow> RGBA \<Rightarrow> Image" where
  "SetRGBA im x y c =
     (if 0 \<le> x \<and> x < width im \<and> 0 \<le> y \<and> y < height im
      then im\<lparr>colourAt := (colourAt im)((x, y) := c)\<rparr> else im)"

definition renderPixel :: "Image \<Rightarrow> int \<Rightarrow> int \<Rightarrow> u8 \<Rightarrow> panic + Image" where
  "renderPixel im x y px =
     (if px = 0x00 then Inr (SetRGBA im x y (RGBA 0xff 0xff 0xff 0xff))
      else if px = 0x01 then Inr (SetRGBA im x y (RGBA 0xaa 0xaa 0xaa 0xff))
      else if px = 0x02 then Inr (SetRGBA im x y (RGBA 0x77 0x77 0x77 0xff))
      else if px = 0x03 then Inr (SetRGBA im x y (RGBA 0x33 0x33 0x33 0xff))
      else if px = 0x10 then Inr (SetRGBA im x y (RGBA 0xff 0xaa 0xaa 0xff))
      else if px = 0x11 then Inr (SetRGBA im x y (RGBA 0xaa 0x77 0x77 0xff))
      else if px = 0x12 then Inr (SetRGBA im x y (RGBA 0x77 0x33 0x33 0xff))
      else if px = 0x13 then Inr (SetRGBA im x y (RGBA 0x33 0x00 0x00 0xff))
      else if px = 0x20 then Inr (SetRGBA im x y (RGBA 0xaa 0xff 0xaa 0xff))
      else if px = 0x21 then Inr (SetRGBA im x y (RGBA 0x77 0xaa 0x77 0xff))
      else if px = 0x22 then Inr (SetRGBA im x y (RGBA 0x33 0x77 0x33 0xff))
      else if px = 0x23 then Inr (SetRGBA im x y (RGBA 0x00 0x33 0x00 0xff))
      else if px = 0x30 then Inr (SetRGBA im x y (RGBA 0xaa 0xaa 0xff 0xff))
      else if px = 0x31 then Inr (SetRGBA im x y (RGBA 0x77 0x77 0xaa 0xff))
      else if px = 0x32 then Inr (SetRGBA im x y (RGBA 0x33 0x33 0x77 0xff))
      else if px = 0x33 then Inr (SetRGBA im x y (RGBA 0x00 0x00 0x33 0xff))
      else Inl (BadPixel px))"

text \<open>\<^verbatim>\<open>renderFrame\<close>: the array is indexed below 23040 = 144 * 160 by both loops.\<close>

definition renderFrame :: "u8 list \<Rightarrow> panic + Image" where
  "renderFrame dat =
     forEach [0..<144] (\<lambda>y. forEach [0..<160] (\<lambda>x im.
        renderPixel im (int x) (int y) (dat ! (y * 160 + x)))) (NewRGBA 160 144)"

subsection \<open>The palette as the spec words it\<close>

text \<open>The four grey levels, white to black, and a level darker than black for the tints;
  the colour of a frame-buffer byte from its shade (bits 0-1) and its tint (bits 4-5): no
  tint is grey, and tint 1, 2 or 3 keeps the shade's level in the red, green or blue
  channel and darkens the other two by one level.\<close>

definition greyLevel :: "u8 \<Rightarrow> u8" where
  "greyLevel s = (if s = 0 then 0xff else if s = 1 then 0xaa else if s = 2 then 0x77
                  else if s = 3 then 0x33 else 0x00)"

definition spec_colour :: "u8 \<Rightarrow> RGBA" where
  "spec_colour px =
     (let shade = px AND 3;
          tint = drop_bit 4 px AND 3;
          hi = greyLevel shade;
          lo = greyLevel (shade + 1)
      in if tint = 0 then RGBA hi hi hi 0xff
         else if tint = 1 then RGBA hi lo lo 0xff
         else if tint = 2 then RGBA lo hi lo 0xff
         else RGBA lo lo hi 0xff)"

text \<open>A tint is biased towards a channel when that channel is brighter than both others.\<close>

fun redBiased :: "RGBA \<Rightarrow> bool" where
  "redBiased (RGBA r g b a) = (unat g < unat r \<and> unat b < unat r)"

fun greenBiased :: "RGBA \<Rightarrow> bool" where
  "greenBiased (RGBA r g b a) = (unat r < unat g \<and> unat b < unat g)"

fun blueBiased :: "RGBA \<Rightarrow> bool" where
  "blueBiased (RGBA r g b a) = (unat r < unat b \<and> unat g < unat b)"

section \<open>pkg/gb: the orchestrator\<close>

text \<open>Modelled from the spec: the \<^verbatim>\<open>ui.Button\<close> type is declared in the \<^verbatim>\<open>ui\<close> package, of
  which only the GL renderer is among the sources. The spec lists the buttons
  Up, Down, Left, Right, A, B, Start, Select.\<close>

datatype Button = ui_Up | ui_Down | ui_Left | ui_Right | ui_A | ui_B | ui_Start | ui_Select

text \<open>Modelled from the spec: the struct \<^verbatim>\<open>mem.Memory\<close> of \<^verbatim>\<open>pkg/gb/mem\<close> is not among the
  sources. The orchestrator uses three of its fields: the interrupt-flag byte \<^verbatim>\<open>IF\<close> and
  the two active-low joypad nibbles. What else the struct holds is the record's extension.\<close>

record gb_Memory =
  IF :: u8
  ButtonInput :: u8
  DirectionInput :: u8

text \<open>\<^verbatim>\<open>lcd.LCD\<close> of \<^verbatim>\<open>pkg/gb/lcd\<close>, likewise: the orchestrator reads its field
  \<^verbatim>\<open>Frame\<close>, the \<^verbatim>\<open>image.RGBA\<close> handed to \<^verbatim>\<open>gui.DrawFrame\<close>.\<close>

record gb_LCD =
  Frame :: Image


text \<open>The \<^verbatim>\<open>Gameboy\<close> struct: the four subsystems behind its pointers and the frame
  counter, a Go \<^verbatim>\<open>int\<close>: a machine word of the platform's width \<open>'w\<close> (32 or 64 bits),
  whose \<^verbatim>\<open>++\<close> wraps around. The fields \<^verbatim>\<open>start\<close>, \<^verbatim>\<open>opts\<close>, \<^verbatim>\<open>cancel\<close> and \<^verbatim>\<open>dur\<close> are read or written
  by neither \<^verbatim>\<open>runFrame\<close> nor \<^verbatim>\<open>ButtonAction\<close>; they are the record's extension.\<close>

record (overloaded) ('d, 'm, 't, 'l, 'w::len) Gameboy =
  dispatch :: 'd
  memory :: "'m gb_Memory_scheme"
  timer :: 't
  lcd :: "'l gb_LCD_scheme"
  frame :: "'w word"

text \<open>The methods of the subsystems are not among the sources: they are parameters. Each
  acts on the objects its receiver can reach, as \<^verbatim>\<open>NewGameboy\<close> wires them: the dispatcher
  holds the memory, the memory holds the timer, the LCD holds the memory, the timer holds
  nothing, and none of them holds the \<^verbatim>\<open>Gameboy\<close>. \<^verbatim>\<open>Start\<close> is taken as an operation on the
  dispatcher alone ("Start the CPU in case it was stopped waiting for input").\<close>

record ('d, 'm, 't, 'l) Methods =
  dispatch_ExecuteMachineCycle ::
    "'d \<times> 'm gb_Memory_scheme \<times> 't \<Rightarrow> 'd \<times> 'm gb_Memory_scheme \<times> 't"
  dispatch_Start :: "'d \<Rightarrow> 'd"
  memory_ExecuteMachineCycle ::
    "'m gb_Memory_scheme \<times> 't \<Rightarrow> 'm gb_Memory_scheme \<times> 't"
  lcd_EndMachineCycle ::
    "'l gb_LCD_scheme \<times> 'm gb_Memory_scheme \<times> 't
       \<Rightarrow> 'l gb_LCD_scheme \<times> 'm gb_Memory_scheme \<times> 't"
  lcd_FrameEnd ::
    "'l gb_LCD_scheme \<times> 'm gb_Memory_scheme \<times> 't
       \<Rightarrow> 'l gb_LCD_scheme \<times> 'm gb_Memory_scheme \<times> 't"
  timer_EndMachineCycle :: "'t \<Rightarrow> bool \<times> 't"

subsection \<open>runFrame\<close>

text \<open>The body of the \<^verbatim>\<open>for\<close> loop of \<^verbatim>\<open>runFrame\<close>, statement by statement.\<close>

definition machineCycle ::
  "('d, 'm, 't, 'l) Methods \<Rightarrow> ('d, 'm, 't, 'l, 'w::len, 'z) Gameboy_scheme
     \<Rightarrow> ('d, 'm, 't, 'l, 'w::len, 'z) Gameboy_scheme" where
  "machineCycle ops gb =
     (let (d, m, t) = dispatch_ExecuteMachineCycle ops (dispatch gb, memory gb, timer gb);
          (m, t) = memory_ExecuteMachineCycle ops (m, t);
          (l, m, t) = lcd_EndMachineCycle ops (lcd gb, m, t);
          (timerInterruptRequested, t) = timer_EndMachineCycle ops t;
          m = (if timerInterruptRequested then m\<lparr>IF := IF m OR 0x04\<rparr> else m)
      in gb\<lparr>dispatch := d, memory := m, timer := t, lcd := l\<rparr>)"

text \<open>The loop itself, \<^verbatim>\<open>for mtick := 0; mtick < 17556; mtick++\<close>, from any value of the
  counter; it returns the counter with the state.\<close>

function frameLoop ::
  "('d, 'm, 't, 'l) Methods \<Rightarrow> int \<Rightarrow> ('d, 'm, 't, 'l, 'w::len, 'z) Gameboy_scheme
     \<Rightarrow> int \<times> ('d, 'm, 't, 'l, 'w::len, 'z) Gameboy_scheme" where
  "frameLoop ops mtick gb =
     (if mtick < 17556 then frameLoop ops (mtick + 1) (machineCycle ops gb) else (mtick, gb))"
  by pat_completeness auto
termination
  by (relation "measure (\<lambda>(ops, mtick, gb). nat (17556 - mtick))") auto



text \<open>One call of each subsystem's per-cycle method, as a step on the \<^verbatim>\<open>Gameboy\<close>: the
  comparison values for the loop body. The timer's step includes what the orchestrator does
  with the flag the timer returns.\<close>

definition stepCPU ::
  "('d, 'm, 't, 'l) Methods \<Rightarrow> ('d, 'm, 't, 'l, 'w::len, 'z) Gameboy_scheme
     \<Rightarrow> ('d, 'm, 't, 'l, 'w::len, 'z) Gameboy_scheme" where
  "stepCPU ops gb =
     (let (d, m, t) = dispatch_ExecuteMachineCycle ops (dispatch gb, memory gb, timer gb)
      in gb\<lparr>dispatch := d, memory := m, timer := t\<rparr>)"

definition stepMemory ::
  "('d, 'm, 't, 'l) Methods \<Rightarrow> ('d, 'm, 't, 'l, 'w::len, 'z) Gameboy_scheme
     \<Rightarrow> ('d, 'm, 't, 'l, 'w::len, 'z) Gameboy_scheme" where
  "stepMemory ops gb =
     (let (m, t) = memory_ExecuteMachineCycle ops (memory gb, timer gb)
      in gb\<lparr>memory := m, timer := t\<rparr>)"

definition stepLCD ::
  "('d, 'm, 't, 'l) Methods \<Rightarrow> ('d, 'm, 't, 'l, 'w::len, 'z) Gameboy_scheme
     \<Rightarrow> ('d, 'm, 't, 'l, 'w::len, 'z) Gameboy_scheme" where
  "stepLCD ops gb =
     (let (l, m, t) = lcd_EndMachineCycle ops (lcd gb, memory gb, timer gb)
      in gb\<lparr>memory := m, timer := t, lcd := l\<rparr>)"

definition stepTimer ::
  "('d, 'm, 't, 'l) Methods \<Rightarrow> ('d, 'm, 't, 'l, 'w::len, 'z) Gameboy_scheme
     \<Rightarrow> ('d, 'm, 't, 'l, 'w::len, 'z) Gameboy_scheme" where
  "stepTimer ops gb =
     (let (timerInterruptRequested, t) = timer_EndMachineCycle ops (timer gb)
      in if timerInterruptRequested
         then gb\<lparr>memory := (memory gb)\<lparr>IF := IF (memory gb) OR 0x04\<rparr>, timer := t\<rparr>
         else gb\<lparr>timer := t\<rparr>)"

subsection \<open>ButtonAction\<close>

text \<open>The four assignments \<^verbatim>\<open>ButtonAction\<close> makes: \<^verbatim>\<open>&^=\<close> clears the bits of its operand,
  \<^verbatim>\<open>|=\<close> sets them.\<close>

definition clearButtonInput ::
  "u8 \<Rightarrow> ('d, 'm, 't, 'l, 'w::len, 'z) Gameboy_scheme \<Rightarrow> ('d, 'm, 't, 'l, 'w::len, 'z) Gameboy_scheme" where
  "clearButtonInput bits gb =
     gb\<lparr>memory := (memory gb)\<lparr>ButtonInput := ButtonInput (memory gb) AND NOT bits\<rparr>\<rparr>"

definition setButtonInput ::
  "u8 \<Rightarrow> ('d, 'm, 't, 'l, 'w::len, 'z) Gameboy_scheme \<Rightarrow> ('d, 'm, 't, 'l, 'w::len, 'z) Gameboy_scheme" where
  "setButtonInput bits gb =
     gb\<lparr>memory := (memory gb)\<lparr>ButtonInput := ButtonInput (memory gb) OR bits\<rparr>\<rparr>"

definition clearDirectionInput ::
  "u8 \<Rightarrow> ('d, 'm, 't, 'l, 'w::len, 'z) Gameboy_scheme \<Rightarrow> ('d, 'm, 't, 'l, 'w::len, 'z) Gameboy_scheme" where
  "clearDirectionInput bits gb =
     gb\<lparr>memory := (memory gb)\<lparr>DirectionInput := DirectionInput (memory gb) AND NOT bits\<rparr>\<rparr>"

definition setDirectionInput ::
  "u8 \<Rightarrow> ('d, 'm, 't, 'l, 'w::len, 'z) Gameboy_scheme \<Rightarrow> ('d, 'm, 't, 'l, 'w::len, 'z) Gameboy_scheme" where
  "setDirectionInput bits gb =
     gb\<lparr>memory := (memory gb)\<lparr>DirectionInput := DirectionInput (memory gb) OR bits\<rparr>\<rparr>"

definition ButtonAction ::
  "('d, 'm, 't, 'l) Methods \<Rightarrow> Button \<Rightarrow> bool \<Rightarrow> ('d, 'm, 't, 'l, 'w::len, 'z) Gameboy_scheme
     \<Rightarrow> ('d, 'm, 't, 'l, 'w::len, 'z) Gameboy_scheme" where
  "ButtonAction ops b pressed gb =
     (let gb = gb\<lparr>dispatch := dispatch_Start ops (dispatch gb)\<rparr>;
          gb = (if b = ui_Start
                then (if pressed then clearButtonInput 0x8 gb else setButtonInput 0x8 gb)
                else if b = ui_Select
                then (if pressed then clearButtonInput 0x4 gb else setButtonInput 0x4 gb)
                else gb);
          gb = (if b = ui_B
                then (if pressed then clearButtonInput 0x2 gb else setButtonInput 0x2 gb)
                else gb);
          gb = (if b = ui_A
                then (if pressed then clearButtonInput 0x1 gb else setButtonInput 0x1 gb)
                else gb);
          gb = (if b = ui_Down
                then (if pressed then clearDirectionInput 0x8 gb else setDirectionInput 0x8 gb)
                else if b = ui_Up
                then (if pressed then clearDirectionInput 0x4 gb else setDirectionInput 0x4 gb)
                else gb);
          gb = (if b = ui_Left
                then (if pressed then clearDirectionInput 0x2 gb else setDirectionInput 0x2 gb)
                else if b = ui_Right
                then (if pressed then clearDirectionInput 0x1 gb else setDirectionInput 0x1 gb)
                else gb)
      in gb)"

text \<open>Whether a change of the interrupt-flag byte raises the joypad interrupt (bit 4 goes
  from 0 to 1), counted as 0 or 1.\<close>

definition joypadRaised :: "u8 \<Rightarrow> u8 \<Rightarrow> nat" where
  "joypadRaised before after = (if before AND 0x10 = 0 \<and> after AND 0x10 = 0x10 then 1 else 0)"

section \<open>pkg/gb/audio: the audio clock\<close>

text \<open>The \<^verbatim>\<open>Audio\<close> struct: the clock counter \<^verbatim>\<open>tick\<close> (\<^verbatim>\<open>uint64\<close>) and the sample counter
  \<^verbatim>\<open>sample\<close>, a \<^verbatim>\<open>float64\<close> that only ever holds a whole number (it is set to 0 and
  incremented), kept as that number. The channels and the control block are the record's
  extension.\<close>

record Audio =
  tick :: "64 word"
  sample :: nat

text \<open>Two parts of \<^verbatim>\<open>tickClock\<close> are parameters: \<^verbatim>\<open>takeSample\<close>, which is not among the
  sources, and the floating-point expression \<^verbatim>\<open>uint64(math.Round(a.sample*period44100hz))\<close>,
  as a function of the sample counter.\<close>

record 'a AudioMethods =
  takeSample :: "'a Audio_scheme \<Rightarrow> 'a Audio_scheme"
  sampleTick :: "nat \<Rightarrow> 64 word"

definition period512hz :: "64 word" where
  "period512hz = 8192"

definition tick512 :: "'a Audio_scheme \<Rightarrow> 'a Audio_scheme" where
  "tick512 a = a"

definition tick44100 :: "'a AudioMethods \<Rightarrow> 'a Audio_scheme \<Rightarrow> 'a Audio_scheme" where
  "tick44100 aops a = takeSample aops a"

definition tickClock :: "'a AudioMethods \<Rightarrow> 'a Audio_scheme \<Rightarrow> 'a Audio_scheme" where
  "tickClock aops a =
     (let a = (if tick a \<ge> 4194304 then a\<lparr>tick := 0, sample := 0\<rparr> else a);
          a = (if tick a mod period512hz = 0 then tick512 a else a);
          a = (if tick a = sampleTick aops (sample a)
               then (let a = tick44100 aops a in a\<lparr>sample := sample a + 1\<rparr>)
               else a)
      in a\<lparr>tick := tick a + 1\<rparr>)"

definition Audio_EndMachineCycle :: "'a AudioMethods \<Rightarrow> 'a Audio_scheme \<Rightarrow> 'a Audio_scheme" where
  "Audio_EndMachineCycle aops a = tickClock aops (tickClock aops (tickClock aops (tickClock aops a)))"

text \<open>The per-cycle step as the spec words it, on a machine that has an audio unit beside
  the \<^verbatim>\<open>Gameboy\<close>: CPU, then Memory (DMA), then LCD, then Timer, then Audio.\<close>

definition spec_machineCycle ::
  "('d, 'm, 't, 'l) Methods \<Rightarrow> 'a AudioMethods
     \<Rightarrow> ('d, 'm, 't, 'l, 'w::len, 'z) Gameboy_scheme \<times> 'a Audio_scheme
     \<Rightarrow> ('d, 'm, 't, 'l, 'w::len, 'z) Gameboy_scheme \<times> 'a Audio_scheme" where
  "spec_machineCycle ops aops machine =
     (stepTimer ops (stepLCD ops (stepMemory ops (stepCPU ops (fst machine)))),
      Audio_EndMachineCycle aops (snd machine))"

section \<open>Concrete machines for the evaluations\<close>

text \<open>Subsystems without state whose methods do nothing, and a \<^verbatim>\<open>Gameboy\<close> made of them
  on a 64-bit platform, with no button held and a blank 160 by 144 frame.\<close>

definition idle_methods :: "(unit, unit, unit, unit) Methods" where
  "idle_methods =
     \<lparr>dispatch_ExecuteMachineCycle = (\<lambda>s. s), dispatch_Start = (\<lambda>d. d),
      memory_ExecuteMachineCycle = (\<lambda>s. s), lcd_EndMachineCycle = (\<lambda>s. s),
      lcd_FrameEnd = (\<lambda>s. s), timer_EndMachineCycle = (\<lambda>t. (False, t))\<rparr>"

definition idle_gameboy :: "(unit, unit, unit, unit, 64) Gameboy" where
  "idle_gameboy =
     \<lparr>dispatch = (), memory = \<lparr>IF = 0, ButtonInput = 0x0F, DirectionInput = 0x0F\<rparr>,
      timer = (), lcd = \<lparr>Frame = NewRGBA 160 144\<rparr>, frame = 0\<rparr>"

text \<open>An audio unit one clock after power-up, before its second sample is due; the sample
  point is the exactly rounded product (at sample 0 it is 0, as in floating point).\<close>

definition audio_methods0 :: "unit AudioMethods" where
  "audio_methods0 =
     \<lparr>takeSample = (\<lambda>a. a),
      sampleTick = (\<lambda>n. of_nat ((n * 95108934240362812 + 500000000000000) div 1000000000000000))\<rparr>"

definition audio1 :: Audio where
  "audio1 = \<lparr>tick = 1, sample = 0\<rparr>"

text \<open>Modelled from the spec: the CPU's run mode is one of Running, Halted, Stopped. A
  dispatcher that is only its run mode, whose \<^verbatim>\<open>Start\<close> leaves Stopped for Running, and a
  \<^verbatim>\<open>Gameboy\<close> stopped by STOP.\<close>

datatype run_mode = Running | Halted | Stopped

definition mode_methods :: "(run_mode, unit, unit, unit) Methods" where
  "mode_methods =
     \<lparr>dispatch_ExecuteMachineCycle = (\<lambda>s. s),
      dispatch_Start = (\<lambda>d. if d = Stopped then Running else d),
      memory_ExecuteMachineCycle = (\<lambda>s. s), lcd_EndMachineCycle = (\<lambda>s. s),
      lcd_FrameEnd = (\<lambda>s. s), timer_EndMachineCycle = (\<lambda>t. (False, t))\<rparr>"

definition stopped_gameboy :: "(run_mode, unit, unit, unit, 64) Gameboy" where
  "stopped_gameboy =
     \<lparr>dispatch = Stopped, memory = \<lparr>IF = 0, ButtonInput = 0x0F, DirectionInput = 0x0F\<rparr>,
      timer = (), lcd = \<lparr>Frame = NewRGBA 160 144\<rparr>, frame = 0\<rparr>"

section \<open>Properties of the mode driver\<close>

lemma lyRemainder_lt_114: "cycle smod 114 < (114::int)"
  using smod_int_range [of 114 cycle] by simp

lemma or_mask_low2:
  "(x OR 0x44) AND (3::u8) = x AND 3"
  "(x OR 0x10) AND (3::u8) = x AND 3"
  "(x OR 0x20) AND (3::u8) = x AND 3"
  "(x OR 0x08) AND (3::u8) = x AND 3"
  by (simp_all add: bit.conj_disj_distrib2)

lemma Tick_coincidence_low2: "Tick_coincidence mem ly stat AND 3 = stat AND 3"
  by (simp add: Tick_coincidence_def and.assoc or_mask_low2)

lemma Tick_interrupts_low2: "Tick_interrupts ly lyRemainder stat AND 3 = stat AND 3"
  by (simp add: Tick_interrupts_def or_mask_low2)

lemma Tick_mode_returns:
  "\<exists>stat m. Tick_mode mem ly (cycle smod 114) = Inr (stat, m)"
  using lyRemainder_lt_114 [of cycle] by (simp add: Tick_mode_def)

lemma Tick_mode_mode:
  assumes "Tick_mode mem ly lyRemainder = Inr (stat, m)"
  shows "stat = spec_mode ly (4 * lyRemainder)"
  using assms by (auto simp: Tick_mode_def spec_mode_def not_less split: if_splits)

lemma spec_mode_low2: "spec_mode ly lx AND 3 = spec_mode ly lx"
  by (simp add: spec_mode_def)

lemma Tick_cases:
  obtains stat m where "Tick_mode mem (word_of_int (cycle sdiv 114)) (cycle smod 114) = Inr (stat, m)"
    and "Tick mem cycle =
      Inr (m(mem_STAT := Tick_interrupts (word_of_int (cycle sdiv 114)) (cycle smod 114)
                 (Tick_coincidence m (word_of_int (cycle sdiv 114)) stat),
             mem_LY := word_of_int (cycle sdiv 114)))"
proof -
  obtain stat m where
    sm: "Tick_mode mem (word_of_int (cycle sdiv 114)) (cycle smod 114) = Inr (stat, m)"
    using Tick_mode_returns by blast
  then show thesis
    using that [of stat m] by (simp add: Tick_def Let_def)
qed

lemma reg_distinct:
  "mem_STAT \<noteq> mem_LY" "mem_LY \<noteq> mem_STAT"
  "mem_IF \<noteq> mem_STAT" "mem_IF \<noteq> mem_LY" "mem_IF \<noteq> 0xff45"
  "mem_STAT \<noteq> mem_IF" "mem_LY \<noteq> mem_IF" "mem_STAT \<noteq> 0xff45" "mem_LY \<noteq> 0xff45"
  by (simp_all add: mem_IF_def mem_STAT_def mem_LY_def)

text \<open>C3. After every tick (\<open>Tick\<close> never panics), the low two bits of STAT are exactly
  the mode that the spec's table gives for the line \<open>ly\<close> that the tick stores in LY and
  the dot \<open>lx = 4 * (cycle % 114)\<close>: mode 2 for \<open>ly < 144\<close> and \<open>lx < 80\<close>, mode 3 for
  \<open>ly < 144\<close> and \<open>lx < 252\<close>, mode 0 for the rest of a visible line, mode 1 for
  \<open>ly \<ge> 144\<close>.\<close>

theorem Tick_STAT_mode:
  "\<exists>m'. Tick mem cycle = Inr m'
      \<and> m' mem_LY = word_of_int (cycle sdiv 114)
      \<and> m' mem_STAT AND 3 = spec_mode (m' mem_LY) (4 * (cycle smod 114))
      \<and> m' mem_STAT AND 3 \<in> {0, 1, 2, 3}"
proof -
  obtain stat m where
    sm: "Tick_mode mem (word_of_int (cycle sdiv 114)) (cycle smod 114) = Inr (stat, m)"
    and tk: "Tick mem cycle =
      Inr (m(mem_STAT := Tick_interrupts (word_of_int (cycle sdiv 114)) (cycle smod 114)
                 (Tick_coincidence m (word_of_int (cycle sdiv 114)) stat),
             mem_LY := word_of_int (cycle sdiv 114)))"
    by (rule Tick_cases)
  have st: "stat = spec_mode (word_of_int (cycle sdiv 114)) (4 * (cycle smod 114))"
    using sm by (rule Tick_mode_mode)
  have "spec_mode (word_of_int (cycle sdiv 114)) (4 * (cycle smod 114)) \<in> {0, 1, 2, 3}"
    by (simp add: spec_mode_def)
  then show ?thesis
    using tk st
    by (simp add: Tick_interrupts_low2 Tick_coincidence_low2 spec_mode_low2 reg_distinct)
qed

lemma Tick_mode_frame:
  assumes "Tick_mode mem ly lyRemainder = Inr (stat, m)"
  shows "m = (if ly = 144 then mem(mem_IF := mem mem_IF OR 0x01) else mem)"
  using assms by (auto simp: Tick_mode_def Let_def split: if_splits)

text \<open>C5 (the code at the failing input). On the all-zero memory the tick of cycle
  16416, the first machine cycle of line 144, raises IF bit 0. With the bit then
  acknowledged, the tick of cycle 16417 raises it again, although that cycle is the second of
  line 144 and no 143-to-144 transition happens there: a second 0-to-1 transition within
  one frame.\<close>

theorem Tick_VBlank_raised_again:
  "Tick zero_memory 16416 = Inr (zero_memory(mem_IF := 1, mem_STAT := 0x11, mem_LY := 144))
   \<and> ackVBlank (zero_memory(mem_IF := 1, mem_STAT := 0x11, mem_LY := 144)) mem_IF = 0
   \<and> readAfter (Tick (ackVBlank (zero_memory(mem_IF := 1, mem_STAT := 0x11, mem_LY := 144)))
         16417) mem_LY = Some 144
   \<and> readAfter (Tick (ackVBlank (zero_memory(mem_IF := 1, mem_STAT := 0x11, mem_LY := 144)))
         16417) mem_IF = Some 1"
  by (simp add: Tick_def Tick_mode_def Tick_coincidence_def Tick_interrupts_def readAfter_def
      zero_memory_def ackVBlank_def reg_distinct)

text \<open>X1. On every tick the IF byte is the old one with bit 0 set if the line is 144,
  and the old one unchanged otherwise: the VBlank bit is raised on each of the 114 machine
  cycles of line 144, and \<^verbatim>\<open>Tick\<close> writes IF at no other time.\<close>

theorem Tick_VBlank_every_cycle_of_line_144:
  "\<exists>m'. Tick mem cycle = Inr m'
      \<and> m' mem_IF = (if (word_of_int (cycle sdiv 114) :: u8) = 144 then mem mem_IF OR 0x01
                     else mem mem_IF)"
proof -
  obtain stat m where
    sm: "Tick_mode mem (word_of_int (cycle sdiv 114)) (cycle smod 114) = Inr (stat, m)"
    and tk: "Tick mem cycle =
      Inr (m(mem_STAT := Tick_interrupts (word_of_int (cycle sdiv 114)) (cycle smod 114)
                 (Tick_coincidence m (word_of_int (cycle sdiv 114)) stat),
             mem_LY := word_of_int (cycle sdiv 114)))"
    by (rule Tick_cases)
  have "m = (if (word_of_int (cycle sdiv 114) :: u8) = 144
             then mem(mem_IF := mem mem_IF OR 0x01) else mem)"
    using sm by (rule Tick_mode_frame)
  then show ?thesis
    using tk by (simp add: reg_distinct)
qed

text \<open>C6 as stated fails: the program has set STAT bit 6, LYC is 0 and the tick of
  cycle 0 starts line 0 (coincidence holds, mode 2 begins), and IF bit 1 stays clear.\<close>

theorem Tick_raises_no_STAT_interrupt:
  "stat6_memory mem_STAT AND 0x40 = 0x40
   \<and> stat6_memory 0xff45 = 0
   \<and> stat6_memory mem_IF = 0
   \<and> readAfter (Tick stat6_memory 0) mem_LY = Some 0
   \<and> readAfter (Tick stat6_memory 0) mem_STAT = Some 0x66
   \<and> readAfter (Tick stat6_memory 0) mem_IF = Some 0"
  by (simp add: Tick_def Tick_mode_def Tick_coincidence_def Tick_interrupts_def readAfter_def
      zero_memory_def stat6_memory_def reg_distinct)

text \<open>C6 as amended. \<open>Tick\<close> never reads STAT and never changes IF bit 1. It overwrites
  STAT with the mode, with bits 6 and 2 together exactly when the line equals LYC, and with
  one event bit: bit 4 during line 144, otherwise bit 5 on the first machine cycle of a
  line, otherwise bit 3 on machine cycle 63 of a line.\<close>

theorem Tick_STAT_event_bits:
  "\<exists>m'. Tick mem cycle = Inr m'
      \<and> m' mem_IF AND 0x02 = mem mem_IF AND 0x02
      \<and> m' mem_STAT =
          spec_mode (word_of_int (cycle sdiv 114)) (4 * (cycle smod 114))
          OR (if word_of_int (cycle sdiv 114) = mem 0xff45 then 0x44 else 0)
          OR (if (word_of_int (cycle sdiv 114) :: u8) = 144 then 0x10
              else if cycle smod 114 = 0 then 0x20
              else if cycle smod 114 = 63 then 0x08 else 0)"
proof -
  obtain stat m where
    sm: "Tick_mode mem (word_of_int (cycle sdiv 114)) (cycle smod 114) = Inr (stat, m)"
    and tk: "Tick mem cycle =
      Inr (m(mem_STAT := Tick_interrupts (word_of_int (cycle sdiv 114)) (cycle smod 114)
                 (Tick_coincidence m (word_of_int (cycle sdiv 114)) stat),
             mem_LY := word_of_int (cycle sdiv 114)))"
    by (rule Tick_cases)
  have st: "stat = spec_mode (word_of_int (cycle sdiv 114)) (4 * (cycle smod 114))"
    using sm by (rule Tick_mode_mode)
  have fr: "m = (if (word_of_int (cycle sdiv 114) :: u8) = 144
                 then mem(mem_IF := mem mem_IF OR 0x01) else mem)"
    using sm by (rule Tick_mode_frame)
  have lyc: "m 0xff45 = mem 0xff45"
    using fr by (simp add: reg_distinct)
  have ifb: "m mem_IF AND 0x02 = mem mem_IF AND 0x02"
    using fr by (simp add: bit.conj_disj_distrib2)
  have low: "stat \<in> {0, 1, 2, 3}"
    using st by (simp add: spec_mode_def)
  have co: "Tick_coincidence m (word_of_int (cycle sdiv 114)) stat =
      stat OR (if word_of_int (cycle sdiv 114) = mem 0xff45 then 0x44 else 0)"
    using low lyc by (auto simp: Tick_coincidence_def)
  show ?thesis
    using tk ifb by (simp add: co st [symmetric] Tick_interrupts_def or.assoc reg_distinct)
qed

section \<open>Properties of the tile renderer\<close>

lemma and_pow2: "(a::u8) AND push_bit k 1 = (if bit a k then push_bit k 1 else 0)"
  by (rule bit_eqI) (auto simp: bit_simps)

lemma and_bitN:
  "a AND bit0 = (if bit a 7 then 128 else 0)"
  "a AND bit1 = (if bit a 6 then 64 else 0)"
  "a AND bit2 = (if bit a 5 then 32 else 0)"
  "a AND bit3 = (if bit a 4 then 16 else 0)"
  "a AND bit4 = (if bit a 3 then 8 else 0)"
  "a AND bit5 = (if bit a 2 then 4 else 0)"
  "a AND bit6 = (if bit a 1 then 2 else 0)"
  "a AND bit7 = (if bit a 0 then 1 else 0)"
  using and_pow2 [of a 7] and_pow2 [of a 6] and_pow2 [of a 5] and_pow2 [of a 4]
    and_pow2 [of a 3] and_pow2 [of a 2] and_pow2 [of a 1] and_pow2 [of a 0]
  by (simp_all add: bit0_def bit1_def bit2_def bit3_def bit4_def bit5_def bit6_def bit7_def)

lemma mod8_cases: "(w::u8) mod 8 \<in> {0, 1, 2, 3, 4, 5, 6, 7}"
proof -
  define n where "n = unat (w mod 8)"
  have eq: "w mod 8 = of_nat n"
    by (simp add: n_def)
  have "n < 8"
    by (simp add: n_def unat_mod)
  then have "n \<in> {0, 1, 2, 3, 4, 5, 6, 7}"
    by auto
  then show ?thesis
    unfolding eq by auto
qed

lemma pixel_eq:
  assumes "bt \<in> {0, 1, 2, 3, 4, 5, 6, 7}"
  shows "pixel mem addr bt =
    Inr ((if bit (mem (addr + 1)) (7 - unat bt) then 2 else 0)
         OR (if bit (mem addr) (7 - unat bt) then 1 else 0))"
  using assms by (auto simp: pixel_def Let_def and_bitN)

lemma two_bits: "(if p then (2::u8) else 0) OR (if q then 1 else 0) \<in> {0, 1, 2, 3}"
  by simp

lemma drawTilesPixel_eq:
  "drawTilesPixel mem lcdY lcdX =
     Inr ((if bit (mem (tileDataAddr mem (lcdX div 8) (lcdY div 8) + ucast (lcdY mod 8) * 2 + 1))
              (7 - unat (lcdX mod 8)) then 2 else 0)
          OR (if bit (mem (tileDataAddr mem (lcdX div 8) (lcdY div 8) + ucast (lcdY mod 8) * 2))
                 (7 - unat (lcdX mod 8)) then 1 else 0))"
  unfolding drawTilesPixel_def Let_def add_0_right
  by (rule pixel_eq) (rule mod8_cases)

lemma drawTilesPixel_range:
  "\<exists>p. drawTilesPixel mem lcdY lcdX = Inr p \<and> p \<in> {0, 1, 2, 3}"
  unfolding drawTilesPixel_eq using two_bits by blast

lemma drawTilesPixel_spec:
  assumes "mem 0xFF43 = 0" and "mem 0xFF42 = 0"
  shows "drawTilesPixel mem lcdY lcdX = Inr (spec_bg_index mem lcdX lcdY)"
  using assms
  by (simp add: drawTilesPixel_eq spec_bg_index_def Let_def tileDataAddr_def
      highBgTileMapDisplaySelect_def lowTileDataSelect_def lowTileAbsoluteAddress_def
      highTileAbsoluteAddress_def add.assoc)

lemma forEach_fold:
  assumes "\<And>i s. i \<in> set idxs \<Longrightarrow> body i s = Inr (f i s)"
  shows "forEach idxs body s = Inr (fold f idxs s)"
  using assms by (induction idxs arbitrary: s) simp_all

lemma length_fold_update:
  "length (fold (\<lambda>x d. d[h x := g x]) xs d) = length d"
  by (induction xs arbitrary: d) simp_all

lemma fold_row_nth:
  assumes "i < length d"
  shows "(fold (\<lambda>x d. d[b + x := g x]) [0..<k] d) ! i =
     (if b \<le> i \<and> i < b + k then g (i - b) else d ! i)"
proof (induction k)
  case 0
  show ?case by auto
next
  case (Suc k)
  show ?case
    using Suc.IH assms
    by (auto simp: nth_list_update length_fold_update less_Suc_eq)
qed

lemma length_fold_rows:
  "length (fold (\<lambda>y. fold (\<lambda>x d. d[y * w + x := G y x]) [0..<w]) ys d) = length d"
  by (induction ys arbitrary: d) (simp_all add: length_fold_update)

lemma fold_rows_nth:
  assumes "0 < w" and "i < length d"
  shows "(fold (\<lambda>y. fold (\<lambda>x d. d[y * w + x := G y x]) [0..<w]) [0..<m] d) ! i =
     (if i < m * w then G (i div w) (i mod w) else d ! i)"
proof (induction m)
  case 0
  show ?case by simp
next
  case (Suc m)
  have row: "m * w \<le> i \<Longrightarrow> i < m * w + w \<Longrightarrow> i div w = m \<and> i mod w = i - m * w"
  proof -
    assume a: "m * w \<le> i" "i < m * w + w"
    define r where "r = i - m * w"
    have r: "i = m * w + r" "r < w"
      using a by (simp_all add: r_def)
    then show ?thesis
      using assms by simp
  qed
  have lt: "i < m * w \<Longrightarrow> i < m * w + w"
    by simp
  show ?case
    using Suc.IH row lt assms(2)
    by (auto simp: fold_row_nth length_fold_rows not_less)
qed

lemma index_unat:
  assumes "y < 144" and "x < 160"
  shows "unat ((ucast (of_nat y :: u8) :: u16) * 160 + ucast (of_nat x :: u8)) = y * 160 + x"
proof -
  have y: "unat (ucast (of_nat y :: u8) :: u16) = y"
    using assms(1) by (simp add: unsigned_ucast_eq unat_of_nat take_bit_nat_eq_self)
  have x: "unat (ucast (of_nat x :: u8) :: u16) = x"
    using assms(2) by (simp add: unsigned_ucast_eq unat_of_nat take_bit_nat_eq_self)
  have "y * 160 + x < 65536"
    using assms by simp
  then show ?thesis
    by (simp add: unat_word_ariths x y)
qed

lemma drawTilesBody_eq:
  assumes "y < 144" and "x < 160"
  shows "drawTilesBody mem (of_nat y) (of_nat x) dat =
    Inr (dat[y * 160 + x := projr (drawTilesPixel mem (of_nat y) (of_nat x))])"
proof -
  obtain p where "drawTilesPixel mem (of_nat y) (of_nat x) = Inr p"
    using drawTilesPixel_range by blast
  then show ?thesis
    by (simp add: drawTilesBody_def Let_def index_unat [OF assms])
qed

lemma drawTiles_fold:
  "drawTiles mem dat =
     Inr (fold (\<lambda>y. fold (\<lambda>x d. d[y * 160 + x := projr (drawTilesPixel mem (of_nat y) (of_nat x))])
                 [0..<160]) [0..<144] dat)"
  unfolding drawTiles_def
  by (rule forEach_fold, rule forEach_fold) (simp add: drawTilesBody_eq)

lemma drawTiles_nth:
  assumes "length dat = 23040" and "y < 144" and "x < 160"
  shows "\<exists>d. drawTiles mem dat = Inr d \<and> length d = 23040
        \<and> Inr (d ! (y * 160 + x)) = drawTilesPixel mem (of_nat y) (of_nat x)"
proof -
  let ?d = "fold (\<lambda>y. fold (\<lambda>x d. d[y * 160 + x := projr (drawTilesPixel mem (of_nat y) (of_nat x))])
                 [0..<160]) [0..<144] dat"
  have i: "y * 160 + x < length dat" "y * 160 + x < 144 * 160"
    using assms by simp_all
  have dm: "(y * 160 + x) div 160 = y" "(y * 160 + x) mod 160 = x"
    using assms(3) by simp_all
  have "?d ! (y * 160 + x) = projr (drawTilesPixel mem (of_nat y) (of_nat x))"
    using fold_rows_nth [of 160 "y * 160 + x" dat
        "\<lambda>y x. projr (drawTilesPixel mem (of_nat y) (of_nat x))" 144] i
    by (simp only: dm if_True)
  moreover obtain p where "drawTilesPixel mem (of_nat y) (of_nat x) = Inr p"
    using drawTilesPixel_range by blast
  moreover have "length ?d = 23040"
    using assms(1) by (simp add: length_fold_rows)
  ultimately show ?thesis
    by (simp add: drawTiles_fold)
qed

lemma drawTiles_range:
  assumes "length dat = 23040"
  shows "\<exists>d. drawTiles mem dat = Inr d \<and> length d = 23040 \<and> set d \<subseteq> {0, 1, 2, 3}"
proof -
  let ?G = "\<lambda>y x. projr (drawTilesPixel mem (of_nat y) (of_nat x))"
  let ?d = "fold (\<lambda>y. fold (\<lambda>x d. d[y * 160 + x := ?G y x]) [0..<160]) [0..<144] dat"
  have len: "length ?d = 23040"
    using assms by (simp add: length_fold_rows)
  have G: "?G y x \<in> {0, 1, 2, 3}" for y x
    using drawTilesPixel_range [of mem "of_nat y" "of_nat x"] by auto
  have "?d ! i \<in> {0, 1, 2, 3}" if "i < 23040" for i
  proof -
    have "?d ! i = ?G (i div 160) (i mod 160)"
      using fold_rows_nth [of 160 i dat ?G 144] that assms by simp
    then show ?thesis
      using G by simp
  qed
  then have "set ?d \<subseteq> {0, 1, 2, 3}"
    unfolding set_conv_nth len by blast
  then show ?thesis
    using len by (simp add: drawTiles_fold)
qed

lemma forEach_succeeds:
  assumes "\<And>i s. i \<in> set idxs \<Longrightarrow> \<exists>s'. body i s = Inr s'"
  shows "\<exists>s'. forEach idxs body s = Inr s'"
  using assms
proof (induction idxs arbitrary: s)
  case Nil
  show ?case by simp
next
  case (Cons i idxs)
  obtain s' where "body i s = Inr s'"
    using Cons.prems [of i s] by auto
  then show ?case
    using Cons.IH [of s'] Cons.prems by simp
qed

lemma renderPixel_shade:
  assumes "px \<in> {0, 1, 2, 3}"
  shows "\<exists>im'. renderPixel im x y px = Inr im'"
  using assms by (auto simp: renderPixel_def)

lemma renderFrame_succeeds:
  assumes "length d = 23040" and "set d \<subseteq> {0, 1, 2, 3}"
  shows "\<exists>im. renderFrame d = Inr im"
  unfolding renderFrame_def
proof (rule forEach_succeeds, rule forEach_succeeds)
  fix y x and im :: Image
  assume "y \<in> set [0..<144]" and "x \<in> set [0..<160]"
  then have "y * 160 + x < length d"
    using assms(1) by simp
  then have "d ! (y * 160 + x) \<in> {0, 1, 2, 3}"
    using assms(2) nth_mem by blast
  then show "\<exists>s'. renderPixel im (int x) (int y) (d ! (y * 160 + x)) = Inr s'"
    by (rule renderPixel_shade)
qed

lemma pixel_two_bits:
  "(case pixel mem addr bt of Inl e \<Rightarrow> e = BadBit bt | Inr p \<Rightarrow> p \<in> {0, 1, 2, 3})"
proof (cases "bt \<in> {0, 1, 2, 3, 4, 5, 6, 7}")
  case True
  then show ?thesis
    using two_bits by (simp only: pixel_eq sum.case)
next
  case False
  then show ?thesis
    by (simp add: pixel_def Let_def)
qed

text \<open>C9. Whatever \<^verbatim>\<open>pixel\<close> returns is 0, 1, 2 or 3 (its only other outcome is the
  bad-bit panic). On the 23040-byte array, \<^verbatim>\<open>drawTiles\<close> (and so \<^verbatim>\<open>FrameData\<close>) never panics
  and leaves an array all of whose bytes are 0, 1, 2 or 3: both loops together assign
  every index, and \<^verbatim>\<open>pixel\<close> is only called with a bit number below 8. On such an array
  \<^verbatim>\<open>renderFrame\<close> returns an image: the panic branch of \<^verbatim>\<open>renderPixel\<close> is not reached.\<close>

theorem drawTiles_never_bad_pixel:
  assumes "length dat = 23040"
  shows "(case pixel mem addr bt of Inl e \<Rightarrow> e = BadBit bt | Inr p \<Rightarrow> p \<in> {0, 1, 2, 3})
      \<and> (\<exists>d. drawTiles mem dat = Inr d \<and> FrameData mem dat = Inr d \<and> length d = 23040
            \<and> set d \<subseteq> {0, 1, 2, 3} \<and> (\<exists>im. renderFrame d = Inr im))"
proof -
  obtain d where d: "drawTiles mem dat = Inr d" "length d = 23040" "set d \<subseteq> {0, 1, 2, 3}"
    using drawTiles_range [OF assms] by blast
  then have "\<exists>d. drawTiles mem dat = Inr d \<and> FrameData mem dat = Inr d \<and> length d = 23040
            \<and> set d \<subseteq> {0, 1, 2, 3} \<and> (\<exists>im. renderFrame d = Inr im)"
    using renderFrame_succeeds [of d] by (simp add: FrameData_def)
  then show ?thesis
    using pixel_two_bits by (rule conjI [rotated])
qed

text \<open>C9 at a concrete input: the all-zero memory and an all-zero array of 23040 bytes.\<close>

theorem drawTiles_never_bad_pixel_witness:
  "length (replicate 23040 (0::u8)) = 23040
   \<and> (case pixel zero_memory 0x8000 0 of Inl e \<Rightarrow> e = BadBit 0 | Inr p \<Rightarrow> p \<in> {0, 1, 2, 3})
   \<and> (\<exists>d. drawTiles zero_memory (replicate 23040 0) = Inr d
          \<and> FrameData zero_memory (replicate 23040 0) = Inr d \<and> length d = 23040
          \<and> set d \<subseteq> {0, 1, 2, 3} \<and> (\<exists>im. renderFrame d = Inr im))"
  using drawTiles_never_bad_pixel
    [where dat = "replicate 23040 0" and mem = zero_memory and addr = "0x8000" and bt = 0,
      OF length_replicate]
  by (simp only: length_replicate simp_thms)

lemma bgp_memory_index: "spec_bg_index bgp_memory 0 0 = 3"
  by (simp add: spec_bg_index_def bgp_memory_def mem_LCDC_def Let_def)

lemma bgp_memory_scroll: "bgp_memory 0xFF43 = 0" "bgp_memory 0xFF42 = 0"
  by (simp_all add: bgp_memory_def mem_LCDC_def)

lemma bgp_memory_drawn:
  "byteAfter (drawTiles bgp_memory (replicate 23040 0)) 0 = Some 3"
proof -
  obtain d where d: "drawTiles bgp_memory (replicate 23040 0) = Inr d"
    and "Inr (d ! (0 * 160 + 0)) = drawTilesPixel bgp_memory (of_nat 0) (of_nat 0)"
    using drawTiles_nth [of "replicate 23040 0" 0 0 bgp_memory] by auto
  then have "d ! 0 = 3"
    using drawTilesPixel_spec [OF bgp_memory_scroll, of 0 0] by (simp add: bgp_memory_index)
  then show ?thesis
    by (simp add: byteAfter_def d)
qed

text \<open>C4 as stated fails: with LCDC bit 0 set, no scroll, and a BGP register that maps
  every colour index to shade 0, the palette-mapped shade of pixel (0, 0) is 0, and
  \<^verbatim>\<open>drawTiles\<close> stores the unmapped colour index 3.\<close>

theorem drawTiles_ignores_BGP:
  "bit (bgp_memory mem_LCDC) 0
   \<and> bgp_memory 0xFF43 = 0 \<and> bgp_memory 0xFF42 = 0
   \<and> spec_bg_shade bgp_memory 0 0 = 0
   \<and> byteAfter (drawTiles bgp_memory (replicate 23040 0)) 0 = Some 3"
proof -
  have "bit (bgp_memory mem_LCDC) 0"
    by (simp add: bgp_memory_def mem_LCDC_def)
  moreover have "spec_bg_shade bgp_memory 0 0 = 0"
    by (simp add: spec_bg_shade_def bgp_memory_index) (simp add: bgp_memory_def mem_LCDC_def)
  ultimately show ?thesis
    using bgp_memory_scroll bgp_memory_drawn by simp
qed

text \<open>C4 as amended. With SCX = SCY = 0, for every pixel \<open>(x, ly)\<close> of the 160 by 144
  frame, \<^verbatim>\<open>drawTiles\<close> stores at \<open>ly * 160 + x\<close> the colour index itself, not mapped through
  BGP and whatever LCDC bit 0 is: tile map at 0x9C00 if LCDC bit 3 else 0x9800, tile data
  at 0x8000 + idx*16 (idx unsigned) if LCDC bit 4 else 0x9000 + idx*16 (idx signed), the
  two bytes of row \<open>ly mod 8\<close>, bit \<open>7 - x mod 8\<close> of each, the second byte's bit counting
  2 and the first byte's 1.\<close>

theorem drawTiles_unscrolled_index:
  assumes "mem 0xFF43 = 0" and "mem 0xFF42 = 0"
    and "length dat = 23040" and "ly < 144" and "x < 160"
  shows "\<exists>d. drawTiles mem dat = Inr d
        \<and> d ! (ly * 160 + x) = spec_bg_index mem (of_nat x) (of_nat ly)"
  using drawTiles_nth [OF assms(3) assms(4) assms(5), of mem]
    drawTilesPixel_spec [OF assms(1) assms(2), of "of_nat ly" "of_nat x"]
  by auto

text \<open>C4 as amended, at a concrete input: pixel (0, 0) of the memory above, whose tile 0
  has colour 3 throughout its first row.\<close>

theorem drawTiles_unscrolled_index_witness:
  "bgp_memory 0xFF43 = 0 \<and> bgp_memory 0xFF42 = 0
   \<and> length (replicate 23040 (0::u8)) = 23040 \<and> (0::nat) < 144 \<and> (0::nat) < 160
   \<and> (\<exists>d. drawTiles bgp_memory (replicate 23040 0) = Inr d \<and> d ! 0 = 3)"
proof -
  have "\<exists>d. drawTiles bgp_memory (replicate 23040 0) = Inr d
        \<and> d ! (0 * 160 + 0) = spec_bg_index bgp_memory (of_nat 0) (of_nat 0)"
    by (rule drawTiles_unscrolled_index [OF bgp_memory_scroll length_replicate]) simp_all
  then have "\<exists>d. drawTiles bgp_memory (replicate 23040 0) = Inr d \<and> d ! 0 = 3"
    by (simp add: bgp_memory_index)
  then show ?thesis
    using bgp_memory_scroll by simp
qed

section \<open>Properties of the GL renderer\<close>

lemma spec_colour_table:
  "spec_colour 0x00 = RGBA 0xff 0xff 0xff 0xff" "spec_colour 0x01 = RGBA 0xaa 0xaa 0xaa 0xff"
  "spec_colour 0x02 = RGBA 0x77 0x77 0x77 0xff" "spec_colour 0x03 = RGBA 0x33 0x33 0x33 0xff"
  "spec_colour 0x10 = RGBA 0xff 0xaa 0xaa 0xff" "spec_colour 0x11 = RGBA 0xaa 0x77 0x77 0xff"
  "spec_colour 0x12 = RGBA 0x77 0x33 0x33 0xff" "spec_colour 0x13 = RGBA 0x33 0x00 0x00 0xff"
  "spec_colour 0x20 = RGBA 0xaa 0xff 0xaa 0xff" "spec_colour 0x21 = RGBA 0x77 0xaa 0x77 0xff"
  "spec_colour 0x22 = RGBA 0x33 0x77 0x33 0xff" "spec_colour 0x23 = RGBA 0x00 0x33 0x00 0xff"
  "spec_colour 0x30 = RGBA 0xaa 0xaa 0xff 0xff" "spec_colour 0x31 = RGBA 0x77 0x77 0xaa 0xff"
  "spec_colour 0x32 = RGBA 0x33 0x33 0x77 0xff" "spec_colour 0x33 = RGBA 0x00 0x00 0x33 0xff"
  by (simp_all add: spec_colour_def greyLevel_def Let_def)

lemma renderPixel_drawn:
  "(\<exists>im'. renderPixel im x y px = Inr im') =
     (px \<in> {0x00, 0x01, 0x02, 0x03, 0x10, 0x11, 0x12, 0x13,
             0x20, 0x21, 0x22, 0x23, 0x30, 0x31, 0x32, 0x33})"
  by (auto simp: renderPixel_def)

text \<open>C7. \<^verbatim>\<open>renderPixel\<close> draws exactly the sixteen bytes whose bits 2, 3, 6 and 7 are
  clear. The bytes 0x00 to 0x03 give the greys FFFFFFFF, AAAAAAFF, 777777FF and 333333FF.
  For each of the sixteen the colour is the one the low two bits (shade) and bits 4-5
  (tint) select: the shade's grey level in the tinted channel and the next darker level
  in the other two, so that 0x10-0x13 are red-biased, 0x20-0x23 green-biased and
  0x30-0x33 blue-biased. Any other byte panics.\<close>

theorem renderPixel_palette:
  "renderPixel im x y 0x00 = Inr (SetRGBA im x y (RGBA 0xff 0xff 0xff 0xff))
   \<and> renderPixel im x y 0x01 = Inr (SetRGBA im x y (RGBA 0xaa 0xaa 0xaa 0xff))
   \<and> renderPixel im x y 0x02 = Inr (SetRGBA im x y (RGBA 0x77 0x77 0x77 0xff))
   \<and> renderPixel im x y 0x03 = Inr (SetRGBA im x y (RGBA 0x33 0x33 0x33 0xff))
   \<and> list_all (\<lambda>px. renderPixel im x y px = Inr (SetRGBA im x y (spec_colour px)))
        [0x00, 0x01, 0x02, 0x03, 0x10, 0x11, 0x12, 0x13,
         0x20, 0x21, 0x22, 0x23, 0x30, 0x31, 0x32, 0x33]
   \<and> list_all (\<lambda>px. redBiased (spec_colour px)) [0x10, 0x11, 0x12, 0x13]
   \<and> list_all (\<lambda>px. greenBiased (spec_colour px)) [0x20, 0x21, 0x22, 0x23]
   \<and> list_all (\<lambda>px. blueBiased (spec_colour px)) [0x30, 0x31, 0x32, 0x33]
   \<and> (\<exists>im'. renderPixel im x y px = Inr im') =
       (px \<in> {0x00, 0x01, 0x02, 0x03, 0x10, 0x11, 0x12, 0x13,
               0x20, 0x21, 0x22, 0x23, 0x30, 0x31, 0x32, 0x33})"
proof -
  have "list_all (\<lambda>px. renderPixel im x y px = Inr (SetRGBA im x y (spec_colour px)))
        [0x00, 0x01, 0x02, 0x03, 0x10, 0x11, 0x12, 0x13,
         0x20, 0x21, 0x22, 0x23, 0x30, 0x31, 0x32, 0x33]"
    by (simp add: spec_colour_table renderPixel_def)
  moreover have "list_all (\<lambda>px. redBiased (spec_colour px)) [0x10, 0x11, 0x12, 0x13]"
    "list_all (\<lambda>px. greenBiased (spec_colour px)) [0x20, 0x21, 0x22, 0x23]"
    "list_all (\<lambda>px. blueBiased (spec_colour px)) [0x30, 0x31, 0x32, 0x33]"
    by (simp_all add: spec_colour_table)
  moreover have "renderPixel im x y 0x00 = Inr (SetRGBA im x y (RGBA 0xff 0xff 0xff 0xff))"
    "renderPixel im x y 0x01 = Inr (SetRGBA im x y (RGBA 0xaa 0xaa 0xaa 0xff))"
    "renderPixel im x y 0x02 = Inr (SetRGBA im x y (RGBA 0x77 0x77 0x77 0xff))"
    "renderPixel im x y 0x03 = Inr (SetRGBA im x y (RGBA 0x33 0x33 0x33 0xff))"
    by (simp_all add: renderPixel_def)
  ultimately show ?thesis
    using renderPixel_drawn [of im x y px] by (simp only: simp_thms)
qed

section \<open>Properties of the orchestrator\<close>

lemma frameLoop_eq:
  "frameLoop ops mtick gb =
     (max mtick 17556, (machineCycle ops ^^ nat (17556 - mtick)) gb)"
proof (induction ops mtick gb rule: frameLoop.induct)
  case (1 ops mtick gb)
  show ?case
  proof (cases "mtick < 17556")
    case True
    then have n: "nat (17556 - mtick) = Suc (nat (17556 - (mtick + 1)))"
      by simp
    have "frameLoop ops mtick gb = frameLoop ops (mtick + 1) (machineCycle ops gb)"
      using True by (subst frameLoop.simps) simp
    also have "\<dots> = (max (mtick + 1) 17556,
        (machineCycle ops ^^ nat (17556 - (mtick + 1))) (machineCycle ops gb))"
      using True by (rule "1.IH")
    also have "\<dots> = (max mtick 17556, (machineCycle ops ^^ nat (17556 - mtick)) gb)"
      using True by (simp only: n funpow_Suc_right o_apply) simp
    finally show ?thesis .
  next
    case False
    then show ?thesis
      by (subst frameLoop.simps) simp
  qed
qed




lemma nat_17556: "nat (17556 - 0) = 17556" by simp

lemma frameLoop_0: "frameLoop ops 0 gb = (17556, (machineCycle ops ^^ 17556) gb)"
  by (simp only: frameLoop_eq nat_17556 max_def) simp


lemma machineCycle_steps:
  "machineCycle ops gb = stepTimer ops (stepLCD ops (stepMemory ops (stepCPU ops gb)))"
  by (simp add: machineCycle_def stepTimer_def stepLCD_def stepMemory_def stepCPU_def
      Let_def split_beta)








lemma tickClock_audio1:
  "tickClock audio_methods0 \<lparr>tick = 1, sample = 0\<rparr> = \<lparr>tick = 2, sample = 0\<rparr>"
  "tickClock audio_methods0 \<lparr>tick = 2, sample = 0\<rparr> = \<lparr>tick = 3, sample = 0\<rparr>"
  "tickClock audio_methods0 \<lparr>tick = 3, sample = 0\<rparr> = \<lparr>tick = 4, sample = 0\<rparr>"
  "tickClock audio_methods0 \<lparr>tick = 4, sample = 0\<rparr> = \<lparr>tick = 5, sample = 0\<rparr>"
  by (simp_all add: tickClock_def audio_methods0_def period512hz_def tick512_def
      word_le_nat_alt)

lemma EndMachineCycle_audio1:
  "Audio_EndMachineCycle audio_methods0 audio1 = \<lparr>tick = 5, sample = 0\<rparr>"
  by (simp only: Audio_EndMachineCycle_def audio1_def tickClock_audio1)

text \<open>C2 as stated fails: on a machine with an audio unit whose clock stands at 1, the
  spec's five-step cycle moves the audio clock to 5, while the loop body of \<^verbatim>\<open>runFrame\<close>
  has no audio step (the \<^verbatim>\<open>Gameboy\<close> holds no audio unit) and leaves it at 1.\<close>

theorem machineCycle_omits_audio:
  "tick audio1 = 1
   \<and> tick (snd (spec_machineCycle idle_methods audio_methods0 (idle_gameboy, audio1))) = 5
   \<and> (machineCycle idle_methods idle_gameboy, audio1)
       \<noteq> spec_machineCycle idle_methods audio_methods0 (idle_gameboy, audio1)"
proof -
  have t: "snd (spec_machineCycle idle_methods audio_methods0 (idle_gameboy, audio1))
      = \<lparr>tick = 5, sample = 0\<rparr>"
    by (simp only: spec_machineCycle_def snd_conv EndMachineCycle_audio1)
  have a: "tick audio1 = 1"
    by (simp add: audio1_def)
  have "snd (machineCycle idle_methods idle_gameboy, audio1)
      \<noteq> snd (spec_machineCycle idle_methods audio_methods0 (idle_gameboy, audio1))"
    unfolding t snd_conv by (simp add: audio1_def)
  then have "(machineCycle idle_methods idle_gameboy, audio1)
      \<noteq> spec_machineCycle idle_methods audio_methods0 (idle_gameboy, audio1)"
    by metis
  then show ?thesis
    using a by (simp add: t)
qed

text \<open>C2 as amended. The body of the loop is the sequential composition of four
  subsystem steps, in the order CPU, Memory (DMA), LCD, Timer, where the timer's step ends
  with the orchestrator setting IF bit 2 when the timer asks for its interrupt; a frame is
  17556 repetitions of that composition. There is no audio step.\<close>

theorem machineCycle_four_steps:
  "machineCycle ops gb = stepTimer ops (stepLCD ops (stepMemory ops (stepCPU ops gb)))
   \<and> frameLoop ops 0 gb =
       (17556, ((\<lambda>g. stepTimer ops (stepLCD ops (stepMemory ops (stepCPU ops g)))) ^^ 17556) gb)"
proof -
  have e: "(\<lambda>g. stepTimer ops (stepLCD ops (stepMemory ops (stepCPU ops g)))) = machineCycle ops"
    by (rule ext) (rule machineCycle_steps [symmetric])
  have f: "((\<lambda>g. stepTimer ops (stepLCD ops (stepMemory ops (stepCPU ops g)))) ^^ 17556) gb
      = (machineCycle ops ^^ 17556) gb"
    by (rule arg_cong [where f = "\<lambda>s. (s ^^ 17556) gb", OF e])
  show ?thesis
    unfolding f by (rule conjI [OF machineCycle_steps frameLoop_0])
qed

lemma ButtonAction_dispatch:
  "dispatch (ButtonAction ops b pressed gb) = dispatch_Start ops (dispatch gb)"
  by (simp add: ButtonAction_def Let_def clearButtonInput_def setButtonInput_def
      clearDirectionInput_def setDirectionInput_def)

lemma ButtonAction_IF:
  "IF (memory (ButtonAction ops b pressed gb)) = IF (memory gb)"
  by (simp add: ButtonAction_def Let_def clearButtonInput_def setButtonInput_def
      clearDirectionInput_def setDirectionInput_def)

lemma ButtonAction_pressed_memory:
  "memory (ButtonAction ops b True gb) =
     (case b of
        ui_Start \<Rightarrow> (memory gb)\<lparr>ButtonInput := ButtonInput (memory gb) AND NOT 0x8\<rparr>
      | ui_Select \<Rightarrow> (memory gb)\<lparr>ButtonInput := ButtonInput (memory gb) AND NOT 0x4\<rparr>
      | ui_B \<Rightarrow> (memory gb)\<lparr>ButtonInput := ButtonInput (memory gb) AND NOT 0x2\<rparr>
      | ui_A \<Rightarrow> (memory gb)\<lparr>ButtonInput := ButtonInput (memory gb) AND NOT 0x1\<rparr>
      | ui_Down \<Rightarrow> (memory gb)\<lparr>DirectionInput := DirectionInput (memory gb) AND NOT 0x8\<rparr>
      | ui_Up \<Rightarrow> (memory gb)\<lparr>DirectionInput := DirectionInput (memory gb) AND NOT 0x4\<rparr>
      | ui_Left \<Rightarrow> (memory gb)\<lparr>DirectionInput := DirectionInput (memory gb) AND NOT 0x2\<rparr>
      | ui_Right \<Rightarrow> (memory gb)\<lparr>DirectionInput := DirectionInput (memory gb) AND NOT 0x1\<rparr>)"
  by (cases b) (simp_all add: ButtonAction_def Let_def clearButtonInput_def setButtonInput_def
      clearDirectionInput_def setDirectionInput_def)

lemma ButtonAction_pressed_twice:
  "memory (ButtonAction ops b True (ButtonAction ops b True gb)) = memory (ButtonAction ops b True gb)"
  by (cases b) (simp_all add: ButtonAction_pressed_memory and.assoc)

text \<open>C8. For every button, a second identical button-pressed event leaves both joypad
  nibbles as the first left them (the bit-clear is idempotent). Neither event changes the
  interrupt-flag byte, so the pair raises no joypad interrupt, hence at most one.\<close>

theorem ButtonAction_press_idempotent:
  "ButtonInput (memory (ButtonAction ops b True (ButtonAction ops b True gb)))
     = ButtonInput (memory (ButtonAction ops b True gb))
   \<and> DirectionInput (memory (ButtonAction ops b True (ButtonAction ops b True gb)))
     = DirectionInput (memory (ButtonAction ops b True gb))
   \<and> IF (memory (ButtonAction ops b True gb)) = IF (memory gb)
   \<and> IF (memory (ButtonAction ops b True (ButtonAction ops b True gb))) = IF (memory gb)
   \<and> joypadRaised (IF (memory gb)) (IF (memory (ButtonAction ops b True gb)))
     + joypadRaised (IF (memory (ButtonAction ops b True gb)))
         (IF (memory (ButtonAction ops b True (ButtonAction ops b True gb)))) = 0"
  by (simp add: ButtonAction_pressed_twice ButtonAction_IF joypadRaised_def)

text \<open>C10. Whatever the button, and for a release as for a press, \<^verbatim>\<open>ButtonAction\<close>
  applies \<^verbatim>\<open>dispatch.Start\<close> to the dispatcher, and nothing it does afterwards touches the
  dispatcher: a release acts on the CPU exactly as a press does. With a \<^verbatim>\<open>Start\<close> that
  leaves Stopped mode, the release of any button restarts a stopped CPU.\<close>

theorem ButtonAction_always_starts:
  "dispatch (ButtonAction ops b pressed gb) = dispatch_Start ops (dispatch gb)
   \<and> dispatch (ButtonAction ops b False gb) = dispatch (ButtonAction ops b True gb)
   \<and> dispatch stopped_gameboy = Stopped
   \<and> dispatch (ButtonAction mode_methods b False stopped_gameboy) = Running"
  by (simp add: ButtonAction_dispatch mode_methods_def stopped_gameboy_def)

end
